theory Spec2Isabelle
  imports
    Main
    "HOL-Library.Char_ord"
    "HOL-Library.List_Lexorder"
    "HOL-Library.Product_Lexorder"
    "HOL-Library.Multiset"
begin

section \<open>Data model (app/models.py, app/schemas.py)\<close>

text \<open>
  The enumerations \<open>TokenSource\<close> and \<open>TokenStatus\<close> of app/models.py.
\<close>

datatype TokenSource = PRIORITY | FOLLOW_UP | ONLINE | WALK_IN

datatype TokenStatus = ALLOCATED | CHECKED_IN | CONSULTING | COMPLETED | CANCELLED | NO_SHOW

text \<open>
  A naive \<open>datetime\<close> is the tuple (year, month, day, microsecond of the day); Python
  compares naive datetimes field by field, which is the lexicographic order of the tuple.
\<close>

type_synonym datetime = "nat \<times> nat \<times> nat \<times> nat"

text \<open>
  The rows of the tables \<open>time_slots\<close> and \<open>tokens\<close>. Integer columns are Python's
  unbounded integers; \<open>date\<close> and the times are strings, as in the source. \<open>ts_id\<close> and
  \<open>tk_id\<close> are the primary keys \<open>TimeSlot.id\<close> and \<open>Token.id\<close>, \<open>ts_doctor_id\<close> is
  \<open>TimeSlot.doctor_id\<close>.
\<close>

record TimeSlot =
  ts_id :: int
  ts_doctor_id :: int
  date :: string
  start_time :: string
  end_time :: string
  max_capacity :: int
  current_count :: int
  is_active :: bool

record Token =
  tk_id :: int
  token_number :: string
  patient_name :: string
  patient_phone :: string
  doctor_id :: int
  slot_id :: int
  source :: TokenSource
  status :: TokenStatus
  priority_score :: int
  sequence_number :: int
  allocated_at :: datetime
  checked_in_at :: "datetime option"
  consultation_started_at :: "datetime option"
  completed_at :: "datetime option"
  token_notes :: "string option"

text \<open>The request shape \<open>TokenRequest\<close> of app/schemas.py.\<close>

record TokenRequest =
  rq_patient_name :: string
  rq_patient_phone :: string
  rq_doctor_id :: int
  rq_slot_id :: int
  rq_source :: TokenSource
  rq_notes :: "string option"

text \<open>
  The state the engine works on is what its session shows it: the rows of the two tables,
  each in insertion order. With autoflush (the session factory's default) a query of the
  engine sees every change the engine made before it.
\<close>

record db =
  slots :: "TimeSlot list"
  tokens :: "Token list"

text \<open>
  Every failure of the engine is a Python exception: a \<open>ValueError\<close> raised by the engine
  itself (one constructor for each message), the \<open>ValueError\<close> of \<open>datetime.strptime\<close> on
  a date it cannot read, or the \<open>IntegrityError\<close> of the unique constraint on
  \<open>Token.token_number\<close> when the new row is flushed.
\<close>

datatype error =
    SlotNotFound int
  | SlotNotActive int
  | TokenNotFound int
  | SlotFullAlternative int int
  | SlotAtMaximumCapacity int
  | CannotCancel TokenStatus
  | CannotMarkNoShow TokenStatus
  | DifferentDoctor
  | TargetSlotAtMaximumCapacity int
  | EmergencySlotFullNoReallocation
  | StrptimeValueError string
  | IntegrityError string

section \<open>Priority scorer\<close>

fun PRIORITY_WEIGHTS :: "TokenSource \<Rightarrow> int" where
  "PRIORITY_WEIGHTS PRIORITY = 10"
| "PRIORITY_WEIGHTS FOLLOW_UP = 5"
| "PRIORITY_WEIGHTS ONLINE = 3"
| "PRIORITY_WEIGHTS WALK_IN = 1"

definition calculate_priority_score :: "TokenSource \<Rightarrow> int \<Rightarrow> int" where
  "calculate_priority_score src cnt =
     (let base_score = PRIORITY_WEIGHTS src;
          timing_bonus = max 0 (10 - cnt)
      in base_score * 10 + timing_bonus)"

section \<open>Strings, dates and numbers of the Python runtime\<close>

text \<open>
  \<open>str.strip()\<close> removes leading and trailing white space. Strings are byte lists here;
  the white space modelled is the ASCII one (tab, line feed, vertical tab, form feed,
  carriage return, the four separators 0x1C to 0x1F, and the blank).
\<close>

definition is_space :: "char \<Rightarrow> bool" where
  "is_space c \<longleftrightarrow>
     c \<in> set [CHR 0x09, CHR 0x0A, CHR 0x0B, CHR 0x0C, CHR 0x0D,
               CHR 0x1C, CHR 0x1D, CHR 0x1E, CHR 0x1F, CHR 0x20]"

definition strip :: "string \<Rightarrow> string" where
  "strip s = rev (dropWhile is_space (rev (dropWhile is_space s)))"

text \<open>
  \<open>f"{notes or ''}\n<label><text>".strip()\<close>, the way the engine appends a line to the
  notes of a token.
\<close>

definition append_note :: "string option \<Rightarrow> string \<Rightarrow> string option" where
  "append_note old line =
     Some (strip ((case old of None \<Rightarrow> [] | Some n \<Rightarrow> n) @ CHR 0x0A # line))"

text \<open>Decimal digits of a natural number, as \<open>str()\<close> and the format code \<open>d\<close> print them.\<close>

definition digit_char :: "nat \<Rightarrow> char" where
  "digit_char d = char_of (48 + d)"

function show_nat :: "nat \<Rightarrow> string" where
  "show_nat n = (if n < 10 then [digit_char n] else show_nat (n div 10) @ [digit_char (n mod 10)])"
  by pat_completeness auto
termination
  by (relation "measure id") auto

declare show_nat.simps [simp del]

definition show_int :: "int \<Rightarrow> string" where
  "show_int i = (if i < 0 then CHR ''-'' # show_nat (nat (- i)) else show_nat (nat i))"

text \<open>The format \<open>{n:04d}\<close> for a number that is not negative: zero padding to four digits.\<close>

definition zfill4 :: "nat \<Rightarrow> string" where
  "zfill4 n = (let s = show_nat n in replicate (4 - length s) CHR ''0'' @ s)"

text \<open>
  \<open>datetime.strptime(date, "%Y-%m-%d")\<close> on the shape the slot schema admits
  (\<open>\d{4}-\d{2}-\d{2}\<close>): midnight of that day, or \<open>ValueError\<close> (here \<open>None\<close>) when the
  month or the day does not exist or the year is 0. Any other shape is read as an error.
\<close>

definition is_digit :: "char \<Rightarrow> bool" where
  "is_digit c \<longleftrightarrow> CHR ''0'' \<le> c \<and> c \<le> CHR ''9''"

definition digit_val :: "char \<Rightarrow> nat" where
  "digit_val c = of_char c - 48"

definition days_in_month :: "nat \<Rightarrow> nat \<Rightarrow> nat" where
  "days_in_month y m =
     (if m = 2 then (if y mod 4 = 0 \<and> (y mod 100 \<noteq> 0 \<or> y mod 400 = 0) then 29 else 28)
      else if m \<in> {4, 6, 9, 11} then 30 else 31)"

definition strptime_ymd :: "string \<Rightarrow> datetime option" where
  "strptime_ymd s =
     (if length s = 10 \<and> s ! 4 = CHR ''-'' \<and> s ! 7 = CHR ''-''
         \<and> list_all is_digit [s ! 0, s ! 1, s ! 2, s ! 3, s ! 5, s ! 6, s ! 8, s ! 9]
      then
        (let y = digit_val (s ! 0) * 1000 + digit_val (s ! 1) * 100
                   + digit_val (s ! 2) * 10 + digit_val (s ! 3);
             m = digit_val (s ! 5) * 10 + digit_val (s ! 6);
             d = digit_val (s ! 8) * 10 + digit_val (s ! 9)
         in if 1 \<le> y \<and> 1 \<le> m \<and> m \<le> 12 \<and> 1 \<le> d \<and> d \<le> days_in_month y m
            then Some (y, m, d, 0) else None)
      else None)"

section \<open>Queries of the session\<close>

text \<open>
  \<open>ORDER BY\<close> is insertion of each row into the sorted rest, by the comparison \<open>lt\<close> the
  query names; rows the comparison does not separate stay in table order (SQL leaves
  their order open).
\<close>

fun insort_by :: "('a \<Rightarrow> 'a \<Rightarrow> bool) \<Rightarrow> 'a \<Rightarrow> 'a list \<Rightarrow> 'a list" where
  "insort_by lt x [] = [x]"
| "insort_by lt x (y # ys) = (if lt y x then y # insort_by lt x ys else x # y # ys)"

definition order_by :: "('a \<Rightarrow> 'a \<Rightarrow> bool) \<Rightarrow> 'a list \<Rightarrow> 'a list" where
  "order_by lt xs = foldr (insort_by lt) xs []"

text \<open>\<open>.limit(1)\<close> followed by \<open>scalar_one_or_none()\<close>: the first row, if there is one.\<close>

definition first_or_none :: "'a list \<Rightarrow> 'a option" where
  "first_or_none xs = (case xs of [] \<Rightarrow> None | x # _ \<Rightarrow> Some x)"

text \<open>Writing to the object of a row: the row with that primary key is replaced.\<close>

definition update_slot :: "int \<Rightarrow> (TimeSlot \<Rightarrow> TimeSlot) \<Rightarrow> db \<Rightarrow> db" where
  "update_slot sid f d = d\<lparr>slots := map (\<lambda>s. if ts_id s = sid then f s else s) (slots d)\<rparr>"

definition update_token :: "int \<Rightarrow> (Token \<Rightarrow> Token) \<Rightarrow> db \<Rightarrow> db" where
  "update_token tid f d = d\<lparr>tokens := map (\<lambda>t. if tk_id t = tid then f t else t) (tokens d)\<rparr>"

definition get_slot_with_validation :: "db \<Rightarrow> int \<Rightarrow> error + TimeSlot" where
  "get_slot_with_validation d sid =
     (case find (\<lambda>s. ts_id s = sid) (slots d) of
        None \<Rightarrow> Inl (SlotNotFound sid)
      | Some slot \<Rightarrow> if \<not> is_active slot then Inl (SlotNotActive sid) else Inr slot)"

definition get_token :: "db \<Rightarrow> int \<Rightarrow> error + Token" where
  "get_token d tid =
     (case find (\<lambda>t. tk_id t = tid) (tokens d) of
        None \<Rightarrow> Inl (TokenNotFound tid)
      | Some token \<Rightarrow> Inr token)"

definition get_next_sequence_number :: "db \<Rightarrow> int \<Rightarrow> int" where
  "get_next_sequence_number d sid =
     (case map sequence_number (filter (\<lambda>t. slot_id t = sid) (tokens d)) of
        [] \<Rightarrow> 0 + 1
      | x # xs \<Rightarrow> Max (set (x # xs)) + 1)"

definition generate_token_number :: "db \<Rightarrow> int \<Rightarrow> string \<Rightarrow> error + string" where
  "generate_token_number d did dt =
     (case strptime_ymd dt of
        None \<Rightarrow> Inl (StrptimeValueError dt)
      | Some midnight \<Rightarrow>
          (let count = length (filter (\<lambda>t. doctor_id t = did \<and> midnight \<le> allocated_at t) (tokens d));
               date_short = filter (\<lambda>c. c \<noteq> CHR ''-'') dt
           in Inr (''DOC'' @ show_int did @ ''-'' @ date_short @ ''-'' @ zfill4 (count + 1))))"

definition find_alternative_slot :: "db \<Rightarrow> int \<Rightarrow> string \<Rightarrow> TimeSlot option" where
  "find_alternative_slot d did dt =
     first_or_none
       (order_by (\<lambda>a b. start_time a < start_time b)
          (filter (\<lambda>s. ts_doctor_id s = did \<and> date s = dt \<and> is_active s
                        \<and> current_count s < max_capacity s) (slots d)))"

text \<open>The comparison of \<open>get_slot_queue\<close>: priority score descending, sequence number
  ascending, allocation time ascending.\<close>

definition queue_before :: "Token \<Rightarrow> Token \<Rightarrow> bool" where
  "queue_before a b \<longleftrightarrow>
     priority_score b < priority_score a
     \<or> (priority_score a = priority_score b
        \<and> (sequence_number a < sequence_number b
           \<or> (sequence_number a = sequence_number b \<and> allocated_at a < allocated_at b)))"

text \<open>The \<open>WHERE\<close> clause of \<open>get_slot_queue\<close>: the tokens of the slot in a status that
  occupies capacity.\<close>

definition occupying :: "TokenStatus \<Rightarrow> bool" where
  "occupying st \<longleftrightarrow> st \<in> set [ALLOCATED, CHECKED_IN, CONSULTING]"

definition occupies :: "int \<Rightarrow> Token \<Rightarrow> bool" where
  "occupies sid t \<longleftrightarrow> slot_id t = sid \<and> occupying (status t)"

definition get_slot_queue :: "db \<Rightarrow> int \<Rightarrow> Token list" where
  "get_slot_queue d sid = order_by queue_before (filter (occupies sid) (tokens d))"

text \<open>
  \<open>_resequence_slot_tokens\<close>: the loop over \<open>enumerate(tokens, start=1)\<close> writes the index
  into each token of the queue.
\<close>

definition resequence_slot_tokens :: "db \<Rightarrow> int \<Rightarrow> db" where
  "resequence_slot_tokens d sid =
     (let queue = get_slot_queue d sid
      in fold (\<lambda>(idx, token) d'. update_token (tk_id token) (\<lambda>t. t\<lparr>sequence_number := idx\<rparr>) d')
              (zip (map int [1 ..< Suc (length queue)]) queue) d)"

section \<open>The allocation engine (app/allocation_engine.py)\<close>

text \<open>
  Each operation takes the session state and returns the state it leaves together with
  the token it returns or the exception it raises. The state of a failed operation is the
  state at the \<open>raise\<close>: the engine itself never rolls back. \<open>now\<close> is the reading of
  \<open>datetime.utcnow()\<close> during the call.
\<close>

text \<open>The primary key the database gives a new token row: one more than the largest.\<close>

definition next_token_id :: "db \<Rightarrow> int" where
  "next_token_id d = (case map tk_id (tokens d) of [] \<Rightarrow> 1 | x # xs \<Rightarrow> Max (set (x # xs)) + 1)"

text \<open>
  \<open>allocate_token\<close>. The flush inserts the token and writes the counter; when the token
  number is already in the table the unique constraint fails the flush, which undoes the
  pending insert and counter update.
\<close>

definition allocate_token :: "db \<Rightarrow> TokenRequest \<Rightarrow> datetime \<Rightarrow> db \<times> (error + Token)" where
  "allocate_token d request now =
     (case get_slot_with_validation d (rq_slot_id request) of
        Inl e \<Rightarrow> (d, Inl e)
      | Inr slot \<Rightarrow>
          if max_capacity slot \<le> current_count slot then
            (case find_alternative_slot d (rq_doctor_id request) (date slot) of
               Some alternative \<Rightarrow> (d, Inl (SlotFullAlternative (ts_id slot) (ts_id alternative)))
             | None \<Rightarrow> (d, Inl (SlotAtMaximumCapacity (ts_id slot))))
          else
            (let score = calculate_priority_score (rq_source request) (current_count slot);
                 seq = get_next_sequence_number d (ts_id slot)
             in case generate_token_number d (ts_doctor_id slot) (date slot) of
                  Inl e \<Rightarrow> (d, Inl e)
                | Inr number \<Rightarrow>
                    (let token = \<lparr>tk_id = next_token_id d,
                                  token_number = number,
                                  patient_name = rq_patient_name request,
                                  patient_phone = rq_patient_phone request,
                                  doctor_id = rq_doctor_id request,
                                  slot_id = rq_slot_id request,
                                  source = rq_source request,
                                  status = ALLOCATED,
                                  priority_score = score,
                                  sequence_number = seq,
                                  allocated_at = now,
                                  checked_in_at = None,
                                  consultation_started_at = None,
                                  completed_at = None,
                                  token_notes = rq_notes request\<rparr>
                     in if number \<in> set (map token_number (tokens d))
                        then (d, Inl (IntegrityError number))
                        else (update_slot (ts_id slot)
                                (\<lambda>s. s\<lparr>current_count := current_count s + 1\<rparr>)
                                (d\<lparr>tokens := tokens d @ [token]\<rparr>),
                              Inr token))))"

text \<open>The Python object the engine returns is the session's row of that token.\<close>

definition session_token :: "db \<Rightarrow> Token \<Rightarrow> Token" where
  "session_token d token =
     (case find (\<lambda>t. tk_id t = tk_id token) (tokens d) of None \<Rightarrow> token | Some t \<Rightarrow> t)"

text \<open>\<open>if reason:\<close> holds for a reason that is neither \<open>None\<close> nor the empty string.\<close>

definition with_reason :: "string \<Rightarrow> string option \<Rightarrow> Token \<Rightarrow> Token" where
  "with_reason label reason t =
     (case reason of
        None \<Rightarrow> t
      | Some r \<Rightarrow> if r = [] then t else t\<lparr>token_notes := append_note (token_notes t) (label @ r)\<rparr>)"

definition release :: "TimeSlot \<Rightarrow> TimeSlot" where
  "release s = s\<lparr>current_count := max 0 (current_count s - 1)\<rparr>"

definition cancel_token :: "db \<Rightarrow> int \<Rightarrow> string option \<Rightarrow> datetime \<Rightarrow> db \<times> (error + Token)" where
  "cancel_token d token_id reason now =
     (case get_token d token_id of
        Inl e \<Rightarrow> (d, Inl e)
      | Inr token \<Rightarrow>
          if status token \<in> set [COMPLETED, CANCELLED] then (d, Inl (CannotCancel (status token)))
          else
            (let d1 = update_token token_id
                        (\<lambda>t. with_reason ''Cancellation: '' reason
                                (t\<lparr>status := CANCELLED, completed_at := Some now\<rparr>)) d
             in case get_slot_with_validation d1 (slot_id token) of
                  Inl e \<Rightarrow> (d1, Inl e)
                | Inr slot \<Rightarrow>
                    (let d2 = update_slot (ts_id slot) release d1;
                         d3 = resequence_slot_tokens d2 (slot_id token)
                     in (d3, Inr (session_token d3 token)))))"

definition reallocate_token :: "db \<Rightarrow> int \<Rightarrow> int \<Rightarrow> string option \<Rightarrow> db \<times> (error + Token)" where
  "reallocate_token d token_id new_slot_id reason =
     (case get_token d token_id of
        Inl e \<Rightarrow> (d, Inl e)
      | Inr token \<Rightarrow>
          (case get_slot_with_validation d (slot_id token) of
             Inl e \<Rightarrow> (d, Inl e)
           | Inr old_slot \<Rightarrow>
               (case get_slot_with_validation d new_slot_id of
                  Inl e \<Rightarrow> (d, Inl e)
                | Inr new_slot \<Rightarrow>
                    if doctor_id token \<noteq> ts_doctor_id new_slot then (d, Inl DifferentDoctor)
                    else if max_capacity new_slot \<le> current_count new_slot
                    then (d, Inl (TargetSlotAtMaximumCapacity new_slot_id))
                    else
                      (let d1 = update_slot (ts_id old_slot) release d;
                           d2 = update_slot (ts_id new_slot)
                                  (\<lambda>s. s\<lparr>current_count := current_count s + 1\<rparr>) d1;
                           d3 = update_token token_id (\<lambda>t. t\<lparr>slot_id := new_slot_id\<rparr>) d2;
                           seq = get_next_sequence_number d3 new_slot_id;
                           d4 = update_token token_id
                                  (\<lambda>t. with_reason ''Reallocation: '' reason
                                          (t\<lparr>sequence_number := seq\<rparr>)) d3;
                           d5 = resequence_slot_tokens d4 (ts_id old_slot);
                           d6 = resequence_slot_tokens d5 (ts_id new_slot)
                       in (d6, Inr (session_token d6 token))))))"

text \<open>
  The query of \<open>_reallocate_lowest_priority\<close>: the walk-in tokens of the slot in status
  \<open>ALLOCATED\<close>, priority score ascending, allocation time descending, first row.
\<close>

definition bump_before :: "Token \<Rightarrow> Token \<Rightarrow> bool" where
  "bump_before a b \<longleftrightarrow>
     priority_score a < priority_score b
     \<or> (priority_score a = priority_score b \<and> allocated_at b < allocated_at a)"

definition bump_candidate :: "int \<Rightarrow> Token \<Rightarrow> bool" where
  "bump_candidate sid t \<longleftrightarrow> slot_id t = sid \<and> source t = WALK_IN \<and> status t = ALLOCATED"

definition lowest_priority_walk_in :: "db \<Rightarrow> int \<Rightarrow> Token option" where
  "lowest_priority_walk_in d sid =
     first_or_none (order_by bump_before (filter (bump_candidate sid) (tokens d)))"

definition reallocate_lowest_priority :: "db \<Rightarrow> int \<Rightarrow> db \<times> (error + bool)" where
  "reallocate_lowest_priority d sid =
     (case lowest_priority_walk_in d sid of
        None \<Rightarrow> (d, Inr False)
      | Some token \<Rightarrow>
          (case get_slot_with_validation d sid of
             Inl e \<Rightarrow> (d, Inl e)
           | Inr slot \<Rightarrow>
               (case find_alternative_slot d (doctor_id token) (date slot) of
                  Some alternative \<Rightarrow>
                    (case reallocate_token d (tk_id token) (ts_id alternative)
                            (Some ''Auto-reallocation for emergency insertion'') of
                       (d', Inl e) \<Rightarrow> (d', Inl e)
                     | (d', Inr _) \<Rightarrow> (d', Inr True))
                | None \<Rightarrow> (d, Inr False))))"

text \<open>
  The tail of \<open>handle_emergency_insertion\<close>: the request's source is overwritten with
  \<open>PRIORITY\<close>, the token is allocated and its notes are annotated.
\<close>

definition emergency_allocate :: "db \<Rightarrow> TokenRequest \<Rightarrow> datetime \<Rightarrow> db \<times> (error + Token)" where
  "emergency_allocate d request now =
     (case allocate_token d (request\<lparr>rq_source := PRIORITY\<rparr>) now of
        (d', Inl e) \<Rightarrow> (d', Inl e)
      | (d', Inr token) \<Rightarrow>
          (let d'' = update_token (tk_id token)
                       (\<lambda>t. t\<lparr>token_notes := append_note (token_notes t) ''EMERGENCY INSERTION''\<rparr>) d'
           in (d'', Inr (session_token d'' token))))"

definition handle_emergency_insertion ::
  "db \<Rightarrow> TokenRequest \<Rightarrow> bool \<Rightarrow> datetime \<Rightarrow> db \<times> (error + Token)" where
  "handle_emergency_insertion d request force now =
     (case get_slot_with_validation d (rq_slot_id request) of
        Inl e \<Rightarrow> (d, Inl e)
      | Inr slot \<Rightarrow>
          if max_capacity slot \<le> current_count slot \<and> \<not> force then
            (case reallocate_lowest_priority d (ts_id slot) of
               (d', Inl e) \<Rightarrow> (d', Inl e)
             | (d', Inr reallocated) \<Rightarrow>
                 if \<not> reallocated then
                   (if force then emergency_allocate d' request now
                    else (d', Inl EmergencySlotFullNoReallocation))
                 else emergency_allocate d' request now)
          else emergency_allocate d request now)"

definition mark_no_show :: "db \<Rightarrow> int \<Rightarrow> datetime \<Rightarrow> db \<times> (error + Token)" where
  "mark_no_show d token_id now =
     (case get_token d token_id of
        Inl e \<Rightarrow> (d, Inl e)
      | Inr token \<Rightarrow>
          if status token \<noteq> ALLOCATED then (d, Inl (CannotMarkNoShow (status token)))
          else
            (let d1 = update_token token_id
                        (\<lambda>t. t\<lparr>status := NO_SHOW, completed_at := Some now\<rparr>) d
             in case get_slot_with_validation d1 (slot_id token) of
                  Inl e \<Rightarrow> (d1, Inl e)
                | Inr slot \<Rightarrow>
                    (let d2 = update_slot (ts_id slot) release d1
                     in (d2, Inr (session_token d2 token)))))"

text \<open>Runs of engine calls: each call starts from the state the one before it left.\<close>

datatype operation =
    Allocate TokenRequest datetime
  | Cancel int "string option" datetime
  | MarkNoShow int datetime
  | Reallocate int int "string option"
  | EmergencyInsert TokenRequest bool datetime

fun apply_operation :: "db \<Rightarrow> operation \<Rightarrow> db \<times> (error + Token)" where
  "apply_operation d (Allocate request now) = allocate_token d request now"
| "apply_operation d (Cancel token_id reason now) = cancel_token d token_id reason now"
| "apply_operation d (MarkNoShow token_id now) = mark_no_show d token_id now"
| "apply_operation d (Reallocate token_id new_slot_id reason) =
     reallocate_token d token_id new_slot_id reason"
| "apply_operation d (EmergencyInsert request force now) =
     handle_emergency_insertion d request force now"

fun run :: "db \<Rightarrow> operation list \<Rightarrow> db" where
  "run d [] = d"
| "run d (operation # rest) = run (fst (apply_operation d operation)) rest"

section \<open>Well-formed states and observations\<close>

text \<open>\<open>TimeSlot.id\<close> and \<open>Token.id\<close> are primary keys: no two rows share one.\<close>

definition slot_ids_unique :: "db \<Rightarrow> bool" where
  "slot_ids_unique d \<longleftrightarrow> distinct (map ts_id (slots d))"

definition token_ids_unique :: "db \<Rightarrow> bool" where
  "token_ids_unique d \<longleftrightarrow> distinct (map tk_id (tokens d))"

text \<open>The capacity invariant of the specification, for every slot of the state.\<close>

definition capacity_invariant :: "db \<Rightarrow> bool" where
  "capacity_invariant d \<longleftrightarrow>
     (\<forall>s \<in> set (slots d). 0 \<le> current_count s \<and> current_count s \<le> max_capacity s)"

definition well_formed :: "db \<Rightarrow> bool" where
  "well_formed d \<longleftrightarrow> slot_ids_unique d \<and> capacity_invariant d"

text \<open>What is fixed about the slots: everything but the counter.\<close>

definition slot_frames :: "db \<Rightarrow> TimeSlot list" where
  "slot_frames d = map (\<lambda>s. s\<lparr>current_count := 0\<rparr>) (slots d)"

text \<open>The counter of the slot with a given id, as a query by primary key reads it.\<close>

definition slot_count :: "db \<Rightarrow> int \<Rightarrow> int option" where
  "slot_count d sid = map_option current_count (find (\<lambda>s. ts_id s = sid) (slots d))"

text \<open>The \<open>ORDER BY\<close> columns of \<open>get_slot_queue\<close> as one key, compared lexicographically.\<close>

definition queue_key :: "Token \<Rightarrow> int \<times> int \<times> datetime" where
  "queue_key t = (- priority_score t, sequence_number t, allocated_at t)"

section \<open>Example states\<close>

definition ex_slot :: "int \<Rightarrow> int \<Rightarrow> string \<Rightarrow> string \<Rightarrow> string \<Rightarrow> int \<Rightarrow> int \<Rightarrow> bool \<Rightarrow> TimeSlot" where
  "ex_slot i did dt st en cap cnt act =
     \<lparr>ts_id = i, ts_doctor_id = did, date = dt, start_time = st, end_time = en,
      max_capacity = cap, current_count = cnt, is_active = act\<rparr>"

definition ex_request :: "string \<Rightarrow> int \<Rightarrow> int \<Rightarrow> TokenSource \<Rightarrow> TokenRequest" where
  "ex_request name did sid src =
     \<lparr>rq_patient_name = name, rq_patient_phone = ''+91 9000000000'', rq_doctor_id = did,
      rq_slot_id = sid, rq_source = src, rq_notes = None\<rparr>"

definition ex_token ::
  "int \<Rightarrow> string \<Rightarrow> int \<Rightarrow> TokenSource \<Rightarrow> TokenStatus \<Rightarrow> int \<Rightarrow> int \<Rightarrow> datetime \<Rightarrow> Token" where
  "ex_token i number sid src st score seq at =
     \<lparr>tk_id = i, token_number = number, patient_name = ''P'', patient_phone = ''+91 9000000000'',
      doctor_id = 1, slot_id = sid, source = src, status = st, priority_score = score,
      sequence_number = seq, allocated_at = at, checked_in_at = None,
      consultation_started_at = None, completed_at = None, token_notes = None\<rparr>"

text \<open>One empty slot of capacity 1 for doctor 1, and the same slot after a walk-in took it.\<close>

definition ex_single :: db where
  "ex_single = \<lparr>slots = [ex_slot 1 1 ''2026-11-05'' ''09:00'' ''10:00'' 1 0 True], tokens = []\<rparr>"

definition ex_single_full :: db where
  "ex_single_full = run ex_single [Allocate (ex_request ''A'' 1 1 WALK_IN) (2026, 11, 5, 100)]"

text \<open>Two empty slots of doctor 1 on one day: slot 1 of capacity 2, slot 2 of capacity 1.\<close>

definition ex_two_slots :: db where
  "ex_two_slots =
     \<lparr>slots = [ex_slot 1 1 ''2026-11-05'' ''09:00'' ''10:00'' 2 0 True,
               ex_slot 2 1 ''2026-11-05'' ''10:00'' ''11:00'' 1 0 True],
      tokens = []\<rparr>"

text \<open>Walk-ins A and B take slot 1 (tokens 1 and 2); then A is marked as a no-show.\<close>

definition ex_after_no_show :: db where
  "ex_after_no_show =
     run ex_two_slots
       [Allocate (ex_request ''A'' 1 1 WALK_IN) (2026, 11, 5, 100),
        Allocate (ex_request ''B'' 1 1 WALK_IN) (2026, 11, 5, 200),
        MarkNoShow 1 (2026, 11, 5, 300)]"

text \<open>... and then A's token is cancelled as well.\<close>

definition ex_released_twice :: db where
  "ex_released_twice = run ex_after_no_show [Cancel 1 None (2026, 11, 5, 400)]"

text \<open>A slot that was deactivated while token 1 holds a place in it.\<close>

definition ex_deactivated :: db where
  "ex_deactivated =
     \<lparr>slots = [ex_slot 1 1 ''2026-11-05'' ''09:00'' ''10:00'' 2 1 False],
      tokens = [ex_token 1 ''DOC1-20261105-0001'' 1 WALK_IN ALLOCATED 20 1 (2026, 11, 5, 100)]\<rparr>"

text \<open>Doctor 1 with a slot dated 4 November and a slot dated 5 November, both empty.\<close>

definition ex_two_days :: db where
  "ex_two_days =
     \<lparr>slots = [ex_slot 1 1 ''2026-11-04'' ''09:00'' ''10:00'' 5 0 True,
               ex_slot 2 1 ''2026-11-05'' ''09:00'' ''10:00'' 5 0 True],
      tokens = []\<rparr>"

text \<open>Doctor 1 with an empty slot dated 6 November.\<close>

definition ex_tomorrow :: db where
  "ex_tomorrow = \<lparr>slots = [ex_slot 1 1 ''2026-11-06'' ''09:00'' ''10:00'' 5 0 True], tokens = []\<rparr>"

text \<open>
  A full slot 1 with two walk-ins: token 1 has checked in and has the lower score, token 2
  is still in status \<open>ALLOCATED\<close>; slot 2 has room.
\<close>

definition ex_checked_in :: Token where
  "ex_checked_in = ex_token 1 ''DOC1-20261105-0001'' 1 WALK_IN CHECKED_IN 11 1 (2026, 11, 5, 100)"

definition ex_waiting :: Token where
  "ex_waiting = ex_token 2 ''DOC1-20261105-0002'' 1 WALK_IN ALLOCATED 20 2 (2026, 11, 5, 200)"

definition ex_full_walk_ins :: db where
  "ex_full_walk_ins =
     \<lparr>slots = [ex_slot 1 1 ''2026-11-05'' ''09:00'' ''10:00'' 2 2 True,
               ex_slot 2 1 ''2026-11-05'' ''10:00'' ''11:00'' 1 0 True],
      tokens = [ex_checked_in, ex_waiting]\<rparr>"

text \<open>Two tokens of slot 1 that agree in score, sequence number and allocation time.\<close>

definition ex_tie_a :: Token where
  "ex_tie_a = ex_token 1 ''DOC1-20261105-0001'' 1 WALK_IN ALLOCATED 20 1 (2026, 11, 5, 100)"

definition ex_tie_b :: Token where
  "ex_tie_b = ex_token 2 ''DOC1-20261105-0002'' 1 WALK_IN ALLOCATED 20 1 (2026, 11, 5, 100)"

definition ex_tie :: db where
  "ex_tie =
     \<lparr>slots = [ex_slot 1 1 ''2026-11-05'' ''09:00'' ''10:00'' 2 2 True],
      tokens = [ex_tie_a, ex_tie_b]\<rparr>"

text \<open>Slot 1 belongs to doctor 1, slot 2 to doctor 2; slot 1 is full in the second state.\<close>

definition ex_two_doctors :: db where
  "ex_two_doctors =
     \<lparr>slots = [ex_slot 1 1 ''2026-11-05'' ''09:00'' ''10:00'' 1 0 True,
               ex_slot 2 2 ''2026-11-05'' ''09:00'' ''10:00'' 1 0 True],
      tokens = []\<rparr>"

definition ex_two_doctors_full :: db where
  "ex_two_doctors_full =
     run ex_two_doctors [Allocate (ex_request ''A'' 2 1 WALK_IN) (2026, 11, 5, 100)]"

section \<open>Properties of the priority scorer\<close>

lemma timing_bonus_range: "0 \<le> c \<Longrightarrow> 0 \<le> max 0 (10 - c) \<and> max 0 (10 - c) \<le> (10::int)"
  by simp

text \<open>
  Claim C9. With the weights 10, 5, 3, 1 and
  score = weight * 10 + max (0, 10 - current count), a source of greater weight scores
  strictly above a source of smaller weight, whatever the occupancy of the higher class
  and for every occupancy (at least 0) of the lower class; in particular, for every
  occupancy c that is at least 0, a PRIORITY score at c is at least a FOLLOW_UP score at
  occupancy 0, a FOLLOW_UP score at c at least an ONLINE score at occupancy 0, and an
  ONLINE score at c at least a WALK_IN score at occupancy 0.
\<close>

theorem priority_classes_strictly_separated:
  "calculate_priority_score s c = PRIORITY_WEIGHTS s * 10 + max 0 (10 - c)
   \<and> (0 \<le> c \<longrightarrow> 0 \<le> c' \<longrightarrow> PRIORITY_WEIGHTS s' < PRIORITY_WEIGHTS s \<longrightarrow>
        calculate_priority_score s' c' < calculate_priority_score s c)
   \<and> (0 \<le> c \<longrightarrow>
        calculate_priority_score FOLLOW_UP 0 \<le> calculate_priority_score PRIORITY c
      \<and> calculate_priority_score ONLINE 0 \<le> calculate_priority_score FOLLOW_UP c
      \<and> calculate_priority_score WALK_IN 0 \<le> calculate_priority_score ONLINE c)"
  by (cases s; cases s') (auto simp: calculate_priority_score_def Let_def max_def)

theorem priority_classes_strictly_separated_witness:
  "(0::int) \<le> 25 \<and> (0::int) \<le> 0
   \<and> PRIORITY_WEIGHTS FOLLOW_UP < PRIORITY_WEIGHTS PRIORITY
   \<and> calculate_priority_score FOLLOW_UP 0 < calculate_priority_score PRIORITY 25
   \<and> calculate_priority_score FOLLOW_UP 0 \<le> calculate_priority_score PRIORITY 25
   \<and> calculate_priority_score PRIORITY 25 = 100
   \<and> calculate_priority_score FOLLOW_UP 0 = 60"
  using priority_classes_strictly_separated [of PRIORITY 25 0 FOLLOW_UP]
  by (simp add: calculate_priority_score_def)

section \<open>Frame lemmas: what each write leaves alone\<close>

lemma slots_update_token [simp]: "slots (update_token tid f d) = slots d"
  by (simp add: update_token_def)

lemma tokens_update_slot [simp]: "tokens (update_slot sid f d) = tokens d"
  by (simp add: update_slot_def)

lemma slots_fold_resequence:
  "slots (fold (\<lambda>(idx, token) d'. update_token (tk_id token) (\<lambda>t. t\<lparr>sequence_number := idx\<rparr>) d') xs d)
   = slots d"
  by (induction xs arbitrary: d) (auto split: prod.splits)

lemma slots_resequence [simp]: "slots (resequence_slot_tokens d sid) = slots d"
  unfolding resequence_slot_tokens_def Let_def by (rule slots_fold_resequence)

lemma find_map_update:
  assumes "\<And>x. key (f x) = key x"
  shows "find (\<lambda>x. key x = k) (map (\<lambda>x. if key x = k' then f x else x) xs)
         = map_option (\<lambda>x. if key x = k' then f x else x) (find (\<lambda>x. key x = k) xs)"
  using assms by (induction xs) auto

lemma ts_id_release [simp]: "ts_id (release s) = ts_id s"
  by (simp add: release_def)

lemma get_slot_with_validation_Inr:
  "get_slot_with_validation d sid = Inr slot \<Longrightarrow>
     slot \<in> set (slots d) \<and> ts_id slot = sid \<and> is_active slot
     \<and> find (\<lambda>s. ts_id s = sid) (slots d) = Some slot"
  by (auto simp: get_slot_with_validation_def find_Some_iff split: option.splits if_splits)

lemma unique_slot_row:
  "slot_ids_unique d \<Longrightarrow> s \<in> set (slots d) \<Longrightarrow> s' \<in> set (slots d) \<Longrightarrow>
   ts_id s = ts_id s' \<Longrightarrow> s = s'"
  by (metis slot_ids_unique_def distinct_map inj_on_def)

section \<open>The slot counters after each operation\<close>

text \<open>
  Each operation either leaves the slot table as it was or applies \<open>release\<close> (one down,
  not below 0) and the increment to the rows the source names.
\<close>

lemma allocate_token_slots:
  "slots (fst (allocate_token d request now)) = slots d
   \<or> (\<exists>slot. get_slot_with_validation d (rq_slot_id request) = Inr slot
        \<and> current_count slot < max_capacity slot
        \<and> slots (fst (allocate_token d request now))
            = slots (update_slot (ts_id slot) (\<lambda>s. s\<lparr>current_count := current_count s + 1\<rparr>) d))"
  by (auto simp: allocate_token_def Let_def update_slot_def split: sum.splits option.splits)

lemma cancel_token_slots:
  "slots (fst (cancel_token d tid reason now)) = slots d
   \<or> (\<exists>sid. slots (fst (cancel_token d tid reason now)) = slots (update_slot sid release d))"
  by (auto simp: cancel_token_def Let_def update_slot_def split: sum.splits)

lemma mark_no_show_slots:
  "slots (fst (mark_no_show d tid now)) = slots d
   \<or> (\<exists>sid. slots (fst (mark_no_show d tid now)) = slots (update_slot sid release d))"
  by (auto simp: mark_no_show_def Let_def update_slot_def split: sum.splits)

lemma reallocate_token_slots:
  "slots (fst (reallocate_token d tid nid reason)) = slots d
   \<or> (\<exists>old_id new_slot. get_slot_with_validation d nid = Inr new_slot
        \<and> current_count new_slot < max_capacity new_slot
        \<and> slots (fst (reallocate_token d tid nid reason))
            = slots (update_slot nid (\<lambda>s. s\<lparr>current_count := current_count s + 1\<rparr>)
                       (update_slot old_id release d)))"
proof (cases "get_token d tid")
  case (Inl e)
  then show ?thesis by (simp add: reallocate_token_def)
next
  case tok: (Inr token)
  show ?thesis
  proof (cases "get_slot_with_validation d (slot_id token)")
    case (Inl e)
    with tok show ?thesis by (simp add: reallocate_token_def)
  next
    case old: (Inr old_slot)
    show ?thesis
    proof (cases "get_slot_with_validation d nid")
      case (Inl e)
      with tok old show ?thesis by (simp add: reallocate_token_def)
    next
      case new: (Inr new_slot)
      have nid: "ts_id new_slot = nid"
        using get_slot_with_validation_Inr [OF new] by simp
      show ?thesis
        using tok old new nid
        by (auto simp: reallocate_token_def Let_def)
    qed
  qed
qed

section \<open>The capacity invariant\<close>

lemma capacity_invariant_release:
  "capacity_invariant d \<Longrightarrow> capacity_invariant (update_slot sid release d)"
  by (auto simp: capacity_invariant_def update_slot_def release_def)

lemma capacity_invariant_reserve:
  assumes "capacity_invariant d"
      and "\<forall>s \<in> set (slots d). ts_id s = sid \<longrightarrow> current_count s < max_capacity s"
  shows "capacity_invariant (update_slot sid (\<lambda>s. s\<lparr>current_count := current_count s + 1\<rparr>) d)"
  using assms by (auto simp: capacity_invariant_def update_slot_def)

lemma preserved_release:
  "slot_ids_unique d \<Longrightarrow> slot_ids_unique (update_slot sid release d)"
  by (simp add: slot_ids_unique_def update_slot_def release_def comp_def if_distrib cong: if_cong)

lemma preserved_reserve:
  "slot_ids_unique d \<Longrightarrow>
   slot_ids_unique (update_slot sid (\<lambda>s. s\<lparr>current_count := current_count s + 1\<rparr>) d)"
  by (simp add: slot_ids_unique_def update_slot_def comp_def if_distrib cong: if_cong)

lemma reserve_after_validation:
  assumes u: "slot_ids_unique d" and c: "capacity_invariant d"
      and g: "get_slot_with_validation d sid = Inr slot"
      and lt: "current_count slot < max_capacity slot"
  shows "capacity_invariant (update_slot sid (\<lambda>s. s\<lparr>current_count := current_count s + 1\<rparr>) d)"
proof (rule capacity_invariant_reserve [OF c], intro ballI impI)
  fix s assume "s \<in> set (slots d)" "ts_id s = sid"
  with get_slot_with_validation_Inr [OF g] u have "s = slot"
    by (auto intro: unique_slot_row)
  with lt show "current_count s < max_capacity s" by simp
qed

lemma get_slot_after_release:
  assumes c: "capacity_invariant d"
      and g: "get_slot_with_validation d sid = Inr slot"
      and lt: "current_count slot < max_capacity slot"
  shows "\<exists>slot'. get_slot_with_validation (update_slot old release d) sid = Inr slot'
          \<and> current_count slot' < max_capacity slot'"
proof -
  from get_slot_with_validation_Inr [OF g]
  have f: "find (\<lambda>s. ts_id s = sid) (slots d) = Some slot" and a: "is_active slot"
    and m: "slot \<in> set (slots d)" by simp_all
  have "find (\<lambda>s. ts_id s = sid) (slots (update_slot old release d))
        = Some (if ts_id slot = old then release slot else slot)"
    using f by (simp add: update_slot_def find_map_update [of ts_id release])
  moreover from c m have "0 \<le> current_count slot" by (auto simp: capacity_invariant_def)
  ultimately show ?thesis using a lt
    by (auto simp: get_slot_with_validation_def release_def)
qed

lemma well_formed_cong: "slots d' = slots d \<Longrightarrow> well_formed d \<Longrightarrow> well_formed d'"
  by (simp add: well_formed_def slot_ids_unique_def capacity_invariant_def)

lemma well_formed_release: "well_formed d \<Longrightarrow> well_formed (update_slot sid release d)"
  by (simp add: well_formed_def preserved_release capacity_invariant_release)

lemma well_formed_reserve:
  "well_formed d \<Longrightarrow> get_slot_with_validation d sid = Inr slot \<Longrightarrow>
   current_count slot < max_capacity slot \<Longrightarrow>
   well_formed (update_slot sid (\<lambda>s. s\<lparr>current_count := current_count s + 1\<rparr>) d)"
  by (simp add: well_formed_def preserved_reserve reserve_after_validation)

lemma well_formed_allocate_token:
  assumes "well_formed d" shows "well_formed (fst (allocate_token d request now))"
proof -
  from allocate_token_slots [of d request now] show ?thesis
  proof (elim disjE exE conjE)
    assume "slots (fst (allocate_token d request now)) = slots d"
    then show ?thesis using assms by (rule well_formed_cong)
  next
    fix slot
    assume g: "get_slot_with_validation d (rq_slot_id request) = Inr slot"
       and lt: "current_count slot < max_capacity slot"
       and eq: "slots (fst (allocate_token d request now))
            = slots (update_slot (ts_id slot) (\<lambda>s. s\<lparr>current_count := current_count s + 1\<rparr>) d)"
    from get_slot_with_validation_Inr [OF g] have "ts_id slot = rq_slot_id request" by simp
    with well_formed_reserve [OF assms g lt] eq show ?thesis
      by (auto intro: well_formed_cong)
  qed
qed

lemma well_formed_cancel_token:
  assumes "well_formed d" shows "well_formed (fst (cancel_token d tid reason now))"
  using cancel_token_slots [of d tid reason now] assms
  by (auto intro: well_formed_cong well_formed_release)

lemma well_formed_mark_no_show:
  assumes "well_formed d" shows "well_formed (fst (mark_no_show d tid now))"
  using mark_no_show_slots [of d tid now] assms
  by (auto intro: well_formed_cong well_formed_release)

lemma well_formed_reallocate_token:
  assumes "well_formed d" shows "well_formed (fst (reallocate_token d tid nid reason))"
proof -
  from reallocate_token_slots [of d tid nid reason] show ?thesis
  proof (elim disjE exE conjE)
    assume "slots (fst (reallocate_token d tid nid reason)) = slots d"
    then show ?thesis using assms by (rule well_formed_cong)
  next
    fix old_id new_slot
    assume g: "get_slot_with_validation d nid = Inr new_slot"
       and lt: "current_count new_slot < max_capacity new_slot"
       and eq: "slots (fst (reallocate_token d tid nid reason))
            = slots (update_slot nid (\<lambda>s. s\<lparr>current_count := current_count s + 1\<rparr>)
                       (update_slot old_id release d))"
    from assms have c: "capacity_invariant d" by (simp add: well_formed_def)
    from get_slot_after_release [OF c g lt, of old_id]
    obtain slot' where g': "get_slot_with_validation (update_slot old_id release d) nid = Inr slot'"
      and lt': "current_count slot' < max_capacity slot'" by blast
    from eq well_formed_reserve [OF well_formed_release [OF assms] g' lt']
    show ?thesis by (rule well_formed_cong)
  qed
qed

lemma well_formed_allocate_token_result:
  "allocate_token d request now = (d', r) \<Longrightarrow> well_formed d \<Longrightarrow> well_formed d'"
  using well_formed_allocate_token [of d request now] by simp

lemma well_formed_reallocate_token_result:
  "reallocate_token d tid nid reason = (d', r) \<Longrightarrow> well_formed d \<Longrightarrow> well_formed d'"
  using well_formed_reallocate_token [of d tid nid reason] by simp

lemma well_formed_emergency_allocate_result:
  assumes "emergency_allocate d request now = (d', r)" and "well_formed d"
  shows "well_formed d'"
proof (cases "allocate_token d (request\<lparr>rq_source := PRIORITY\<rparr>) now")
  case (Pair d1 r1)
  from well_formed_allocate_token_result [OF Pair assms(2)] have wf: "well_formed d1" .
  show ?thesis
  proof (cases r1)
    case (Inl e)
    with Pair assms(1) wf show ?thesis by (simp add: emergency_allocate_def)
  next
    case (Inr token)
    with Pair assms(1) have "slots d' = slots d1"
      by (auto simp: emergency_allocate_def Let_def)
    then show ?thesis using wf by (rule well_formed_cong)
  qed
qed

lemma reallocate_lowest_priority_cases:
  "reallocate_lowest_priority d sid = (d, Inr False)
   \<or> (\<exists>e. reallocate_lowest_priority d sid = (d, Inl e))
   \<or> (\<exists>token slot alternative.
         lowest_priority_walk_in d sid = Some token
         \<and> get_slot_with_validation d sid = Inr slot
         \<and> find_alternative_slot d (doctor_id token) (date slot) = Some alternative
         \<and> reallocate_lowest_priority d sid
             = (case reallocate_token d (tk_id token) (ts_id alternative)
                       (Some ''Auto-reallocation for emergency insertion'') of
                  (d', Inl e) \<Rightarrow> (d', Inl e)
                | (d', Inr _) \<Rightarrow> (d', Inr True)))"
  unfolding reallocate_lowest_priority_def
  by (simp split: option.splits sum.splits)

lemma well_formed_reallocate_lowest_priority_result:
  assumes r: "reallocate_lowest_priority d sid = (d', r)" and wf: "well_formed d"
  shows "well_formed d'"
proof -
  from reallocate_lowest_priority_cases [of d sid] show ?thesis
  proof (elim disjE exE conjE)
    assume "reallocate_lowest_priority d sid = (d, Inr False)"
    with r wf show ?thesis by simp
  next
    fix e assume "reallocate_lowest_priority d sid = (d, Inl e)"
    with r wf show ?thesis by simp
  next
    fix token :: Token and slot :: TimeSlot and alternative :: TimeSlot
    assume eq: "reallocate_lowest_priority d sid
             = (case reallocate_token d (tk_id token) (ts_id alternative)
                       (Some ''Auto-reallocation for emergency insertion'') of
                  (d', Inl e) \<Rightarrow> (d', Inl e)
                | (d', Inr _) \<Rightarrow> (d', Inr True))"
    obtain d1 r1 where m: "reallocate_token d (tk_id token) (ts_id alternative)
                       (Some ''Auto-reallocation for emergency insertion'') = (d1, r1)"
      by (cases "reallocate_token d (tk_id token) (ts_id alternative)
                       (Some ''Auto-reallocation for emergency insertion'')")
    from eq m r have "d' = d1" by (cases r1) simp_all
    with well_formed_reallocate_token_result [OF m wf] show ?thesis by simp
  qed
qed

lemma well_formed_handle_emergency_insertion:
  assumes "well_formed d"
  shows "well_formed (fst (handle_emergency_insertion d request force now))"
proof (cases "get_slot_with_validation d (rq_slot_id request)")
  case (Inl e)
  with assms show ?thesis by (simp add: handle_emergency_insertion_def)
next
  case (Inr slot)
  show ?thesis
  proof (cases "max_capacity slot \<le> current_count slot \<and> \<not> force")
    case False
    then have "handle_emergency_insertion d request force now = emergency_allocate d request now"
      using Inr by (auto simp: handle_emergency_insertion_def)
    with well_formed_emergency_allocate_result [OF _ assms, of request now] show ?thesis
      by (cases "emergency_allocate d request now") simp
  next
    case True
    obtain d1 r1 where b: "reallocate_lowest_priority d (ts_id slot) = (d1, r1)"
      by (cases "reallocate_lowest_priority d (ts_id slot)")
    from well_formed_reallocate_lowest_priority_result [OF b assms] have wf1: "well_formed d1" .
    have "fst (handle_emergency_insertion d request force now) = d1
          \<or> handle_emergency_insertion d request force now = emergency_allocate d1 request now"
      using Inr True b by (auto simp: handle_emergency_insertion_def split: sum.splits)
    then show ?thesis
    proof
      assume "fst (handle_emergency_insertion d request force now) = d1"
      with wf1 show ?thesis by simp
    next
      assume "handle_emergency_insertion d request force now = emergency_allocate d1 request now"
      with well_formed_emergency_allocate_result [OF _ wf1, of request now] show ?thesis
        by (cases "emergency_allocate d1 request now") simp
    qed
  qed
qed

lemma well_formed_apply_operation:
  "well_formed d \<Longrightarrow> well_formed (fst (apply_operation d operation))"
  by (cases operation)
     (simp_all add: well_formed_allocate_token well_formed_cancel_token well_formed_mark_no_show
        well_formed_reallocate_token well_formed_handle_emergency_insertion)

lemma well_formed_run: "well_formed d \<Longrightarrow> well_formed (run d operations)"
proof (induction operations arbitrary: d)
  case Nil
  then show ?case by simp
next
  case (Cons operation rest)
  from Cons.prems have "well_formed (fst (apply_operation d operation))"
    by (rule well_formed_apply_operation)
  then show ?case using Cons.IH by simp
qed

text \<open>
  Claim C3. From a state whose slots have distinct ids and counters within
  0 \<open>\<le>\<close> current_count \<open>\<le>\<close> max_capacity, every run of allocate, cancel, mark-no-show and
  reallocate calls (and of emergency insertions, forced or not) ends in a state whose
  slots all satisfy 0 \<open>\<le>\<close> current_count \<open>\<le>\<close> max_capacity. The run is arbitrary, so this holds
  after each operation of a sequence, whether the operation returned or raised.
\<close>

theorem capacity_invariant_after_every_operation:
  assumes "slot_ids_unique d" and "capacity_invariant d"
  shows "capacity_invariant (run d operations)"
  using well_formed_run [of d operations] assms by (simp add: well_formed_def)

theorem capacity_invariant_after_every_operation_witness:
  "slot_ids_unique ex_two_slots \<and> capacity_invariant ex_two_slots
   \<and> capacity_invariant
       (run ex_two_slots
          [Allocate (ex_request ''A'' 1 2 WALK_IN) (2026, 11, 5, 100),
           Allocate (ex_request ''B'' 1 2 WALK_IN) (2026, 11, 5, 200),
           EmergencyInsert (ex_request ''C'' 1 2 ONLINE) True (2026, 11, 5, 300),
           EmergencyInsert (ex_request ''D'' 1 2 ONLINE) False (2026, 11, 5, 400),
           Reallocate 1 2 None,
           MarkNoShow 1 (2026, 11, 5, 500),
           Cancel 1 None (2026, 11, 5, 600)])"
proof -
  have u: "slot_ids_unique ex_two_slots"
    by (simp add: slot_ids_unique_def ex_two_slots_def ex_slot_def)
  have c: "capacity_invariant ex_two_slots"
    by (simp add: capacity_invariant_def ex_two_slots_def ex_slot_def)
  from capacity_invariant_after_every_operation [OF u c] u c show ?thesis by blast
qed

end
